theory Spec2Isabelle
  imports Complex_Main
begin

section \<open>JavaScript numbers and values\<close>

text \<open>
  The library (\<^verbatim>\<open>src/unitd.js\<close>) computes with JavaScript numbers. A number is modelled
  as \<open>NaN\<close>, one of the two infinities, or a finite value. Finite values are rationals and
  finite arithmetic is exact: rounding to binary64, overflow and the sign of zero are not
  part of the model. What the code branches on (\<open>isNaN\<close>, the order used by
  \<open>Math.min\<close>/\<open>Math.max\<close>, division by zero) follows ECMAScript.
\<close>

datatype jsnum = NaN | PosInfinity | NegInfinity | Fin rat

fun sign_of :: "jsnum \<Rightarrow> int" where
  "sign_of NaN = 0"
| "sign_of PosInfinity = 1"
| "sign_of NegInfinity = - 1"
| "sign_of (Fin x) = (if 0 < x then 1 else if x < 0 then - 1 else 0)"

definition inf_of :: "int \<Rightarrow> jsnum" where
  "inf_of s = (if 0 < s then PosInfinity else if s < 0 then NegInfinity else NaN)"

text \<open>\<open>a * b\<close>: an infinity times zero is \<open>NaN\<close>.\<close>

fun mul :: "jsnum \<Rightarrow> jsnum \<Rightarrow> jsnum" where
  "mul NaN b = NaN"
| "mul a NaN = NaN"
| "mul (Fin x) (Fin y) = Fin (x * y)"
| "mul a b = inf_of (sign_of a * sign_of b)"

text \<open>\<open>a / b\<close>: \<open>0 / 0\<close> and \<open>\<infinity> / \<infinity>\<close> are \<open>NaN\<close>, a non-zero value over zero is infinite.\<close>

fun divide_num :: "jsnum \<Rightarrow> jsnum \<Rightarrow> jsnum" where
  "divide_num NaN b = NaN"
| "divide_num a NaN = NaN"
| "divide_num (Fin x) (Fin y) = (if y = 0 then inf_of (sign_of (Fin x)) else Fin (x / y))"
| "divide_num (Fin x) b = Fin 0"
| "divide_num a (Fin y) = inf_of (sign_of a * (if y < 0 then - 1 else 1))"
| "divide_num a b = NaN"

fun add :: "jsnum \<Rightarrow> jsnum \<Rightarrow> jsnum" where
  "add NaN b = NaN"
| "add a NaN = NaN"
| "add (Fin x) (Fin y) = Fin (x + y)"
| "add (Fin x) b = b"
| "add a (Fin y) = a"
| "add a b = (if a = b then a else NaN)"

fun negate :: "jsnum \<Rightarrow> jsnum" where
  "negate NaN = NaN"
| "negate PosInfinity = NegInfinity"
| "negate NegInfinity = PosInfinity"
| "negate (Fin x) = Fin (- x)"

definition subtract :: "jsnum \<Rightarrow> jsnum \<Rightarrow> jsnum" where
  "subtract a b = add a (negate b)"

definition isNaN :: "jsnum \<Rightarrow> bool" where
  "isNaN x = (x = NaN)"

text \<open>The order of the numbers other than \<open>NaN\<close>.\<close>

fun num_le :: "jsnum \<Rightarrow> jsnum \<Rightarrow> bool" where
  "num_le NaN b = False"
| "num_le a NaN = False"
| "num_le NegInfinity b = True"
| "num_le a PosInfinity = True"
| "num_le (Fin x) (Fin y) = (x \<le> y)"
| "num_le a b = False"

definition Math_min :: "jsnum \<Rightarrow> jsnum \<Rightarrow> jsnum" where
  "Math_min a b = (if isNaN a \<or> isNaN b then NaN else if num_le a b then a else b)"

definition Math_max :: "jsnum \<Rightarrow> jsnum \<Rightarrow> jsnum" where
  "Math_max a b = (if isNaN a \<or> isNaN b then NaN else if num_le a b then b else a)"

text \<open>
  The values a caller can pass where the code expects a number: the primitive values and
  a reference to a \<open>Measure\<close> instance (its address in the store of instances, see below).
  Other objects, symbols and big integers are not modelled.
\<close>

datatype jsval =
    Undefined
  | Null
  | Boolean bool
  | Number jsnum
  | String string
  | MeasureRef nat

text \<open>\<open>v instanceof Measure\<close>\<close>

fun is_Measure :: "jsval \<Rightarrow> bool" where
  "is_Measure (MeasureRef a) = True"
| "is_Measure v = False"

subsection \<open>\<open>Number(string)\<close>\<close>

text \<open>
  The ECMAScript \<open>StringToNumber\<close> conversion on ASCII strings: white space is trimmed,
  the empty string is \<open>0\<close>, then an unsigned hexadecimal, octal or binary integer, or a
  signed \<open>Infinity\<close> or decimal literal with optional fraction and exponent; anything else
  is \<open>NaN\<close>.
\<close>

definition is_ws :: "char \<Rightarrow> bool" where
  "is_ws c = (let n = (of_char c :: nat) in (9 \<le> n \<and> n \<le> 13) \<or> n = 32)"

definition is_digit :: "char \<Rightarrow> bool" where
  "is_digit c = (let n = (of_char c :: nat) in 48 \<le> n \<and> n \<le> 57)"

definition is_upper :: "char \<Rightarrow> bool" where
  "is_upper c = (let n = (of_char c :: nat) in 65 \<le> n \<and> n \<le> 90)"

definition is_lower :: "char \<Rightarrow> bool" where
  "is_lower c = (let n = (of_char c :: nat) in 97 \<le> n \<and> n \<le> 122)"

definition digit_val :: "char \<Rightarrow> nat" where
  "digit_val c =
     (let n = (of_char c :: nat)
      in if is_digit c then n - 48 else if is_upper c then n - 55 else n - 87)"

definition is_digit_of :: "nat \<Rightarrow> char \<Rightarrow> bool" where
  "is_digit_of b c = ((is_digit c \<or> is_upper c \<or> is_lower c) \<and> digit_val c < b)"

definition digits_val :: "nat \<Rightarrow> string \<Rightarrow> nat" where
  "digits_val b s = foldl (\<lambda>acc c. acc * b + digit_val c) 0 s"

definition trim :: "string \<Rightarrow> string" where
  "trim s = rev (dropWhile is_ws (rev (dropWhile is_ws s)))"

definition pow10 :: "int \<Rightarrow> rat" where
  "pow10 e = (if 0 \<le> e then 10 ^ nat e else 1 / 10 ^ nat (- e))"

text \<open>The exponent part \<open>e[+-]ddd\<close>; \<open>None\<close> when it is malformed.\<close>

definition exponent_part :: "string \<Rightarrow> int option" where
  "exponent_part s =
     (case s of
        [] \<Rightarrow> Some 0
      | c # t \<Rightarrow>
          if c = CHR ''e'' \<or> c = CHR ''E'' then
            (let (sg, ds) = (case t of
                               [] \<Rightarrow> (1, [])
                             | d # r \<Rightarrow> if d = CHR ''+'' then (1, r)
                                        else if d = CHR ''-'' then (- 1, r)
                                        else (1, t))
             in if ds \<noteq> [] \<and> list_all is_digit ds
                then Some (sg * int (digits_val 10 ds)) else None)
          else None)"

definition unsigned_decimal :: "string \<Rightarrow> jsnum" where
  "unsigned_decimal s =
     (let ip = takeWhile is_digit s;
          r1 = dropWhile is_digit s;
          (fp, r2) = (case r1 of
                        [] \<Rightarrow> ([], r1)
                      | c # t \<Rightarrow> if c = CHR ''.''
                                 then (takeWhile is_digit t, dropWhile is_digit t)
                                 else ([], r1))
      in if ip = [] \<and> fp = [] then NaN
         else (case exponent_part r2 of
                 None \<Rightarrow> NaN
               | Some e \<Rightarrow>
                   Fin ((of_nat (digits_val 10 ip)
                          + of_nat (digits_val 10 fp) / 10 ^ length fp) * pow10 e)))"

definition unsigned_literal :: "string \<Rightarrow> jsnum" where
  "unsigned_literal s = (if s = ''Infinity'' then PosInfinity else unsigned_decimal s)"

definition radix_literal :: "nat \<Rightarrow> string \<Rightarrow> jsnum" where
  "radix_literal b s =
     (if s \<noteq> [] \<and> list_all (is_digit_of b) s then Fin (of_nat (digits_val b s)) else NaN)"

definition StringToNumber :: "string \<Rightarrow> jsnum" where
  "StringToNumber s =
     (let t = trim s; p = take 2 t
      in if t = [] then Fin 0
         else if p = ''0x'' \<or> p = ''0X'' then radix_literal 16 (drop 2 t)
         else if p = ''0o'' \<or> p = ''0O'' then radix_literal 8 (drop 2 t)
         else if p = ''0b'' \<or> p = ''0B'' then radix_literal 2 (drop 2 t)
         else if hd t = CHR ''+'' then unsigned_literal (tl t)
         else if hd t = CHR ''-'' then negate (unsigned_literal (tl t))
         else unsigned_literal t)"

text \<open>
  \<open>Number(v).valueOf()\<close>. A \<open>Measure\<close> instance defines no \<open>valueOf\<close>, so it converts
  through the string \<open>[object Object]\<close> to \<open>NaN\<close>.
\<close>

fun ToNumber :: "jsval \<Rightarrow> jsnum" where
  "ToNumber Undefined = NaN"
| "ToNumber Null = Fin 0"
| "ToNumber (Boolean b) = Fin (if b then 1 else 0)"
| "ToNumber (Number n) = n"
| "ToNumber (String s) = StringToNumber s"
| "ToNumber (MeasureRef a) = NaN"

subsection \<open>\<open>Number(x.toPrecision(p))\<close>\<close>

text \<open>
  \<open>toPrecision\<close> writes \<open>x\<close> with \<open>p\<close> significant decimal digits and \<open>Number\<close> reads the
  string back. The model returns the number that string denotes. For a finite non-zero
  \<open>x\<close> ECMAScript picks integers \<open>e\<close> and \<open>n\<close> with \<open>10^(p-1) \<le> n < 10^p\<close> such that
  \<open>n * 10^(e-p+1)\<close> is as close to \<open>|x|\<close> as possible, the larger one on a tie.
\<close>

function exp10_up :: "rat \<Rightarrow> int" where
  "exp10_up x = (if x < 10 then 0 else exp10_up (x / 10) + 1)"
  by pat_completeness auto
termination
proof (relation "measure (\<lambda>x. nat \<lfloor>x\<rfloor>)")
  show "wf (measure (\<lambda>x::rat. nat \<lfloor>x\<rfloor>))" by simp
next
  fix x :: rat
  assume "\<not> x < 10"
  then have "\<lfloor>x / 10\<rfloor> < \<lfloor>x\<rfloor>" "0 < \<lfloor>x\<rfloor>" by linarith+
  then show "(x / 10, x) \<in> measure (\<lambda>x. nat \<lfloor>x\<rfloor>)" by simp
qed

function exp10_down :: "rat \<Rightarrow> int" where
  "exp10_down x = (if x \<le> 0 \<or> 1 \<le> x then 0 else exp10_down (x * 10) - 1)"
  by pat_completeness auto
termination
proof (relation "measure (\<lambda>x. nat \<lfloor>1 / x\<rfloor>)")
  show "wf (measure (\<lambda>x::rat. nat \<lfloor>1 / x\<rfloor>))" by simp
next
  fix x :: rat
  assume a: "\<not> (x \<le> 0 \<or> 1 \<le> x)"
  define y where "y = 1 / x"
  have y: "1 < y" using a by (simp add: y_def field_simps)
  have e: "1 / (x * 10) = y / 10" by (simp add: y_def)
  have b: "0 < \<lfloor>y\<rfloor>" using y by linarith
  have "of_int \<lfloor>y / 10\<rfloor> \<le> y / 10" by (rule of_int_floor_le)
  moreover have "y < of_int \<lfloor>y\<rfloor> + 1" by linarith
  ultimately have "(of_int (10 * \<lfloor>y / 10\<rfloor>) :: rat) < of_int (\<lfloor>y\<rfloor> + 1)" by simp
  then have "10 * \<lfloor>y / 10\<rfloor> < \<lfloor>y\<rfloor> + 1" by (simp only: of_int_less_iff)
  with b have "\<lfloor>y / 10\<rfloor> < \<lfloor>y\<rfloor>" by linarith
  with b show "(x * 10, x) \<in> measure (\<lambda>x. nat \<lfloor>1 / x\<rfloor>)"
    unfolding in_measure e by (simp add: y_def)
qed

declare exp10_up.simps [simp del] exp10_down.simps [simp del]

text \<open>For \<open>0 < x\<close>, the \<open>e\<close> with \<open>10^e \<le> x < 10^(e+1)\<close>.\<close>

definition decimal_exponent :: "rat \<Rightarrow> int" where
  "decimal_exponent x = (if 1 \<le> x then exp10_up x else exp10_down x)"

text \<open>For \<open>0 < x\<close>: \<open>x\<close> rounded to \<open>p\<close> significant digits, halves upwards.\<close>

definition round_sig :: "rat \<Rightarrow> int \<Rightarrow> rat" where
  "round_sig x p =
     (let e = decimal_exponent x;
          s = pow10 (e - p + 1);
          n = \<lfloor>x / s + 1 / 2\<rfloor>
      in of_int n * s)"

fun ToIntegerOrInfinity :: "jsnum \<Rightarrow> jsnum" where
  "ToIntegerOrInfinity NaN = Fin 0"
| "ToIntegerOrInfinity (Fin x) = Fin (of_int (if 0 \<le> x then \<lfloor>x\<rfloor> else \<lceil>x\<rceil>))"
| "ToIntegerOrInfinity a = a"

section \<open>Errors\<close>

text \<open>
  Every \<open>throw\<close> of the source is a constructor; its arguments are the values the source
  puts into the message. The incompatibility error of lines 85 and 142 is \<open>NotComparable\<close>
  when the other value is a unit object, and \<open>NotComparableValue\<close> when it is some other
  value (the message then ends with that value as the host prints it, which is left
  out). The others are raised by the host: \<open>RangeError\<close> by \<open>toPrecision\<close> for a precision
  outside \<open>1..100\<close>, \<open>SyntaxError\<close> by \<open>eval\<close>, and \<open>TypeError\<close> by a property read on
  \<open>undefined\<close>, by the read of a restricted property, by \<open>Object.create\<close> of something that
  is no object, and by an assignment that an inherited property forbids.
\<close>

datatype error =
    NumberRequired jsnum
  | UnitNotFound string
  | NotComparable string string
  | BadTypeName string
  | BadUnitName string
  | UnitExists string string
  | OperationExists string
  | RangeError
  | TypeError
  | NotComparableValue string
  | SyntaxError

fun Number_toPrecision :: "jsnum \<Rightarrow> jsnum \<Rightarrow> error + jsnum" where
  "Number_toPrecision (Fin x) precision =
     (case ToIntegerOrInfinity precision of
        Fin p \<Rightarrow>
          if p < 1 \<or> 100 < p then Inl RangeError
          else if x = 0 then Inr (Fin 0)
          else if x < 0 then Inr (Fin (- round_sig (- x) \<lfloor>p\<rfloor>))
          else Inr (Fin (round_sig x \<lfloor>p\<rfloor>))
      | _ \<Rightarrow> Inl RangeError)"
| "Number_toPrecision x precision = Inr x"

section \<open>Units and measures\<close>

text \<open>
  A unit object carries the four properties \<open>Unit.register\<close> defines on it (lines
  121--127); its \<open>toString\<close> returns the name. \<open>isComparable\<close> of a unit of type \<open>t\<close> is
  \<open>other instanceof Unit[t]\<close> (line 107): every unit is created from the prototype of the
  type it is registered under, so for unit objects this is equality of the types.
\<close>

record unit_obj =
  name :: string
  type :: string
  abbr :: string
  scale :: jsnum

definition isComparable :: "unit_obj \<Rightarrow> unit_obj \<Rightarrow> bool" where
  "isComparable u other = (type other = type u)"

record measure_obj =
  val :: jsnum
  raw :: jsnum
  unit :: unit_obj
  precision :: jsnum

definition MAX_PRECISION :: jsnum where
  "MAX_PRECISION = Fin 15"

definition MIN_PRECISION :: jsnum where
  "MIN_PRECISION = Fin 1"

text \<open>
  \<open>Unit._reserved.nonUnited\<close>, registered at line 153 when the module is loaded and, being
  defined without \<open>writable\<close> or \<open>configurable\<close>, never replaced.
\<close>

definition nonUnited :: unit_obj where
  "nonUnited = \<lparr>name = ''nonUnited'', type = ''_reserved'', abbr = '''', scale = Fin 1\<rparr>"

text \<open>
  Lines 50--73: the body of \<open>Measure\<close> once \<open>this\<close> is a fresh instance. An argument
  whose \<open>typeof\<close> is \<open>number\<close> is used as it is, any other goes through \<open>Number\<close>. The unit
  argument is \<open>None\<close> when it is omitted (or otherwise falsy). The result is the instance's
  fields.
\<close>

definition Measure_init :: "jsval \<Rightarrow> unit_obj option \<Rightarrow> jsval \<Rightarrow> error + measure_obj" where
  "Measure_init value0 unit0 precision0 =
     (let precision1 = (case precision0 of Number n \<Rightarrow> n | _ \<Rightarrow> ToNumber precision0);
          precision2 = (if isNaN precision1 then MAX_PRECISION else precision1);
          value1 = (case value0 of Number n \<Rightarrow> n | _ \<Rightarrow> ToNumber value0)
      in if isNaN value1 then Inl (NumberRequired value1)
         else
           (let unit1 = (case unit0 of None \<Rightarrow> nonUnited | Some u \<Rightarrow> u);
                precision3 = Math_max (Math_min precision2 MAX_PRECISION) MIN_PRECISION
            in case Number_toPrecision value1 precision3 of
                 Inl e \<Rightarrow> Inl e
               | Inr v \<Rightarrow> Inr \<lparr>val = v, raw = value1, unit = unit1, precision = precision3\<rparr>))"

subsection \<open>Instances\<close>

text \<open>
  \<open>Measure\<close> instances are objects, and the constructor can hand back the very object it
  was given, so instances live in a store: the list of all instances created so far,
  an instance's address being its position. \<open>new\<close> appends.
\<close>

type_synonym store = "measure_obj list"

text \<open>
  Lines 42--74. Called with or without \<open>new\<close>, a \<open>value\<close> that is an instance is returned
  as it is; otherwise a new instance is initialised. An instance whose initialisation
  throws is unreachable and is not added to the store.
\<close>

definition Measure :: "jsval \<Rightarrow> unit_obj option \<Rightarrow> jsval \<Rightarrow> store \<Rightarrow> (error + nat) \<times> store" where
  "Measure value0 unit0 precision0 h =
     (case value0 of
        MeasureRef a \<Rightarrow> (Inr a, h)
      | _ \<Rightarrow>
          (case Measure_init value0 unit0 precision0 of
             Inl e \<Rightarrow> (Inl e, h)
           | Inr m \<Rightarrow> (Inr (length h), h @ [m])))"

section \<open>The unit registry\<close>

text \<open>
  \<open>Unit[type][name]\<close>: the source uses the function \<open>Unit\<close> as a dictionary from type names
  to type constructors, and each type constructor as a dictionary from unit names to unit
  objects. Both are function objects, and the reads of lines 79, 102 and 115 are property
  reads tested for truthiness: they also find what such an object has or inherits
  without any registration. The alias \<open>Measure[type]\<close> of lines 111--113 is not read by any
  operation below and is left out.
\<close>

subsection \<open>Properties that are there without registration\<close>

text \<open>
  The names are those of ECMAScript 2023 with its Annex B, and the module is strict code.
  Every object inherits the members of \<open>Object.prototype\<close>, and every function those of
  \<open>Function.prototype\<close> as well; all of them are objects, hence truthy. Reading \<open>caller\<close> or
  \<open>arguments\<close> of a function of strict code, or of a built-in one, throws a \<open>TypeError\<close>.
  The \<open>length\<close> of a function is read-only, but configurable: \<open>Object.defineProperty\<close>
  replaces it.
\<close>

definition object_methods :: "string list" where
  "object_methods =
     [''constructor'', ''hasOwnProperty'', ''isPrototypeOf'', ''propertyIsEnumerable'',
      ''toLocaleString'', ''toString'', ''valueOf'', ''__proto__'', ''__defineGetter__'',
      ''__defineSetter__'', ''__lookupGetter__'', ''__lookupSetter__'']"

definition function_methods :: "string list" where
  "function_methods = [''apply'', ''bind'', ''call''] @ object_methods"

definition restricted :: "string list" where
  "restricted = [''caller'', ''arguments'']"

text \<open>
  What a property read gives, as far as lines 77, 80, 102 and 115 tell values apart: a
  unit object; some other truthy value; a falsy value (\<open>undefined\<close> where there is no such
  property, or the \<open>0\<close> that is the \<open>length\<close> of a function without parameters); or the read
  throws.
\<close>

datatype property = Found unit_obj | NonUnit | Falsy | Throws

text \<open>
  A type constructor is the function that line 104 makes, named by the type, with the
  \<open>prototype\<close> of line 105 and the \<open>property\<close> of line 109; its \<open>name\<close> is the type, which is
  never empty, and its \<open>length\<close> is \<open>0\<close>. \<open>props\<close> are the units defined on it (line 120),
  which come first: a unit can be defined under the name \<open>length\<close>, and then replaces the
  number.
\<close>

definition type_properties :: "string list" where
  "type_properties = [''prototype'', ''property'', ''name''] @ function_methods"

definition type_property :: "(string \<rightharpoonup> unit_obj) \<Rightarrow> string \<Rightarrow> property" where
  "type_property props n =
     (case props n of
        Some u \<Rightarrow> Found u
      | None \<Rightarrow>
          if n \<in> set type_properties then NonUnit
          else if n \<in> set restricted then Throws
          else Falsy)"

text \<open>
  The function \<open>Unit\<close> has \<open>register\<close> (line 92), \<open>prototype\<close> (line 91) and its \<open>name\<close>, and
  inherits what every function does. None of these is a type constructor. Its \<open>length\<close> is
  \<open>0\<close>, which line 102 takes for a type not yet defined, and which line 104 replaces by
  the type constructor.
\<close>

definition Unit_properties :: "string list" where
  "Unit_properties = [''register'', ''prototype'', ''name''] @ function_methods"

text \<open>
  What these values have in turn, for line 115. \<open>Unit.register\<close> is a function of four
  parameters and \<open>Unit.constructor\<close> is \<open>Function\<close>: both have a \<open>name\<close>, a \<open>length\<close> that is not
  \<open>0\<close> and a \<open>prototype\<close>. \<open>Unit.prototype\<close> is an object with nothing but \<open>constructor\<close> of its
  own. \<open>Unit.name\<close> is the string \<open>Unit\<close>. \<open>Unit.__proto__\<close> is \<open>Function.prototype\<close>, whose
  \<open>name\<close> is empty and whose \<open>length\<close> is \<open>0\<close>. The others are built-in methods, functions
  with a \<open>name\<close>, a \<open>length\<close> (the number of their parameters) and no \<open>prototype\<close>.
\<close>

definition string_methods :: "string list" where
  "string_methods =
     [''at'', ''charAt'', ''charCodeAt'', ''codePointAt'', ''concat'', ''endsWith'',
      ''includes'', ''indexOf'', ''lastIndexOf'', ''localeCompare'', ''match'', ''matchAll'',
      ''normalize'', ''padEnd'', ''padStart'', ''repeat'', ''replace'', ''replaceAll'',
      ''search'', ''slice'', ''split'', ''startsWith'', ''substring'', ''toLocaleLowerCase'',
      ''toLocaleUpperCase'', ''toLowerCase'', ''toUpperCase'', ''trim'', ''trimEnd'',
      ''trimStart'', ''substr'', ''anchor'', ''big'', ''blink'', ''bold'', ''fixed'',
      ''fontcolor'', ''fontsize'', ''italics'', ''link'', ''small'', ''strike'', ''sub'',
      ''sup'', ''trimLeft'', ''trimRight'']"

definition method_length :: "(string \<times> nat) list" where
  "method_length =
     [(''apply'', 2), (''bind'', 1), (''call'', 1), (''hasOwnProperty'', 1),
      (''isPrototypeOf'', 1), (''propertyIsEnumerable'', 1), (''toLocaleString'', 0),
      (''toString'', 0), (''valueOf'', 0), (''__defineGetter__'', 2),
      (''__defineSetter__'', 2), (''__lookupGetter__'', 1), (''__lookupSetter__'', 1)]"

definition host_property :: "string \<Rightarrow> string \<Rightarrow> property" where
  "host_property t n =
     (if t = ''register'' \<or> t = ''constructor'' then
        (if n \<in> set ([''name'', ''length'', ''prototype''] @ function_methods) then NonUnit
         else if n \<in> set restricted then Throws
         else Falsy)
      else if t = ''prototype'' then
        (if n \<in> set object_methods then NonUnit else Falsy)
      else if t = ''name'' then
        (if n = ''length'' \<or> n \<in> set string_methods \<or> n \<in> set object_methods then NonUnit
         else Falsy)
      else if t = ''__proto__'' then
        (if n \<in> set function_methods then NonUnit
         else if n \<in> set restricted then Throws
         else Falsy)
      else
        (if n = ''name'' \<or> n \<in> set function_methods then NonUnit
         else if n = ''length'' then
           (case map_of method_length t of Some (Suc k) \<Rightarrow> NonUnit | _ \<Rightarrow> Falsy)
         else if n \<in> set restricted then Throws
         else Falsy))"

text \<open>
  \<open>Unit[type].prototype\<close> is an object, so that line 120 can create an object from it,
  for the two that are constructors.
\<close>

definition host_has_prototype :: "string \<Rightarrow> bool" where
  "host_has_prototype t = (t = ''register'' \<or> t = ''constructor'')"

text \<open>
  The words that cannot name a function in strict code: line 104 evaluates a function
  expression named by the type.
\<close>

definition reserved_words :: "string list" where
  "reserved_words =
     [''break'', ''case'', ''catch'', ''class'', ''const'', ''continue'', ''debugger'',
      ''default'', ''delete'', ''do'', ''else'', ''enum'', ''export'', ''extends'', ''false'',
      ''finally'', ''for'', ''function'', ''if'', ''import'', ''in'', ''instanceof'', ''new'',
      ''null'', ''return'', ''super'', ''switch'', ''this'', ''throw'', ''true'', ''try'',
      ''typeof'', ''var'', ''void'', ''while'', ''with'', ''implements'', ''interface'',
      ''let'', ''package'', ''private'', ''protected'', ''public'', ''static'', ''yield'',
      ''eval'', ''arguments'']"

subsection \<open>The registry\<close>

text \<open>
  What registrations have put on the function \<open>Unit\<close>. Under the name of a type that line
  104 has defined there is the type constructor, with the units defined on it. Under a
  name in \<open>Unit_properties\<close> there is, once a registration of that type has succeeded, the
  table of the objects that line 120 has defined on the value found there; such an
  object has the four properties of a unit, but it is made from another prototype: it
  is not an instance of \<open>Unit\<close> and has no \<open>isComparable\<close>.
\<close>

datatype slot = TypeFunction "string \<rightharpoonup> unit_obj" | HostObject "string \<rightharpoonup> unit_obj"

type_synonym registry = "string \<rightharpoonup> slot"

text \<open>\<open>/^[_a-zA-Z]\w*$/\<close>\<close>

definition is_word :: "char \<Rightarrow> bool" where
  "is_word c = (is_lower c \<or> is_upper c \<or> is_digit c \<or> c = CHR ''_'')"

definition validNameRE :: "string \<Rightarrow> bool" where
  "validNameRE s =
     (case s of
        [] \<Rightarrow> False
      | c # t \<Rightarrow> (c = CHR ''_'' \<or> is_lower c \<or> is_upper c) \<and> list_all is_word t)"

text \<open>
  Lines 115--127 when \<open>Unit[type]\<close> is a type constructor with the units \<open>props\<close>: the
  duplicate check is the truthiness of \<open>Unit[type][name]\<close>.
\<close>

definition define_unit ::
  "string \<Rightarrow> string \<Rightarrow> unit_obj \<Rightarrow> (string \<rightharpoonup> unit_obj) \<Rightarrow> registry
     \<Rightarrow> (error + unit) \<times> registry" where
  "define_unit type0 name0 u props Unit =
     (case type_property props name0 of
        Falsy \<Rightarrow> (Inr (), Unit(type0 \<mapsto> TypeFunction (props(name0 \<mapsto> u))))
      | Throws \<Rightarrow> (Inl TypeError, Unit)
      | _ \<Rightarrow> (Inl (UnitExists type0 name0), Unit))"

text \<open>
  The same lines when \<open>Unit[type]\<close> is one of the values the function \<open>Unit\<close> has by itself,
  \<open>defined\<close> being what earlier registrations have defined on it. Where that value has no
  \<open>prototype\<close>, \<open>Object.create\<close> at line 120 throws.
\<close>

definition define_on_host ::
  "string \<Rightarrow> string \<Rightarrow> unit_obj \<Rightarrow> (string \<rightharpoonup> unit_obj) \<Rightarrow> registry
     \<Rightarrow> (error + unit) \<times> registry" where
  "define_on_host type0 name0 u defined Unit =
     (if defined name0 \<noteq> None then (Inl (UnitExists type0 name0), Unit)
      else
        (case host_property type0 name0 of
           Falsy \<Rightarrow>
             if host_has_prototype type0
             then (Inr (), Unit(type0 \<mapsto> HostObject (defined(name0 \<mapsto> u))))
             else (Inl TypeError, Unit)
         | Throws \<Rightarrow> (Inl TypeError, Unit)
         | _ \<Rightarrow> (Inl (UnitExists type0 name0), Unit)))"

text \<open>
  Lines 92--128. The two name checks come first and leave the registry as it is. Line 102
  reads \<open>Unit[type]\<close>: a type constructor or another truthy value is used as it is; a
  restricted property throws; otherwise the type is defined, with no unit in it, before
  the duplicate check, and stays defined when that check throws.
\<close>

definition Unit_register ::
  "string \<Rightarrow> string \<Rightarrow> string \<Rightarrow> jsnum \<Rightarrow> registry \<Rightarrow> (error + unit) \<times> registry" where
  "Unit_register type0 name0 abbr0 scale0 Unit =
     (if \<not> validNameRE type0 then (Inl (BadTypeName type0), Unit)
      else if \<not> validNameRE name0 then (Inl (BadUnitName name0), Unit)
      else
        (let u = \<lparr>name = name0, type = type0, abbr = abbr0, scale = scale0\<rparr>
         in case Unit type0 of
              Some (TypeFunction props) \<Rightarrow> define_unit type0 name0 u props Unit
            | Some (HostObject defined) \<Rightarrow> define_on_host type0 name0 u defined Unit
            | None \<Rightarrow>
                if type0 \<in> set restricted then (Inl TypeError, Unit)
                else if type0 \<in> set Unit_properties
                then define_on_host type0 name0 u Map.empty Unit
                else if type0 \<in> set reserved_words then (Inl SyntaxError, Unit)
                else define_unit type0 name0 u Map.empty
                       (Unit(type0 \<mapsto> TypeFunction Map.empty))))"

text \<open>Lines 152--167: the units registered when the module is loaded, in order.\<close>

definition basic_units :: "(string \<times> string \<times> string \<times> rat) list" where
  "basic_units =
     [(''_reserved'', ''nonUnited'', '''', 1),
      (''amount'', ''count'', '''', 1),
      (''amount'', ''mole'', ''mol'', 1),
      (''distance'', ''astronomicalUnit'', ''au'', 149597870700),
      (''distance'', ''kilometer'', ''km'', 1000),
      (''distance'', ''meter'', ''m'', 1),
      (''distance'', ''millimeter'', ''mm'', 1 / 1000),
      (''distance'', ''mile'', ''mi'', 1609344 / 1000),
      (''distance'', ''yard'', ''yd'', 9144 / 10000),
      (''distance'', ''foot'', ''ft'', 3048 / 10000),
      (''distance'', ''inch'', ''in'', 254 / 10000),
      (''time'', ''day'', ''d'', 86400),
      (''time'', ''hour'', ''hr'', 3600),
      (''time'', ''minute'', ''m'', 60),
      (''time'', ''second'', ''s'', 1)]"

fun register_all :: "(string \<times> string \<times> string \<times> rat) list \<Rightarrow> registry \<Rightarrow> (error + unit) \<times> registry" where
  "register_all [] Unit = (Inr (), Unit)"
| "register_all ((t, n, a, s) # us) Unit =
     (case Unit_register t n a (Fin s) Unit of
        (Inl e, Unit') \<Rightarrow> (Inl e, Unit')
      | (Inr u, Unit') \<Rightarrow> register_all us Unit')"

text \<open>The registry of the module: nothing is registered before line 153.\<close>

definition initial_Unit :: registry where
  "initial_Unit = snd (register_all basic_units Map.empty)"

section \<open>Conversion and the operation methods\<close>

text \<open>
  The argument of \<open>as\<close>: a unit object, or anything else, which is then used as a property
  name under the type of the receiver's unit.
\<close>

datatype unit_arg = UnitObj unit_obj | Named string

text \<open>
  Lines 77--86 of \<open>as\<close>: the unit to convert to. A unit object is an instance of \<open>Unit\<close>
  and is used as it is; a name is read as a property of the type constructor of the
  receiver's unit. The receiver's unit is a unit of a type of the registry; for any
  other, the model answers \<open>TypeError\<close>, as a property read on \<open>undefined\<close> does.
\<close>

definition resolve_unit :: "measure_obj \<Rightarrow> unit_arg \<Rightarrow> registry \<Rightarrow> error + unit_obj" where
  "resolve_unit this unit0 Unit =
     (case unit0 of
        UnitObj u \<Rightarrow>
          if \<not> isComparable (unit this) u
          then Inl (NotComparable (name (unit this)) (name u)) else Inr u
      | Named n \<Rightarrow>
          (case Unit (type (unit this)) of
             Some (TypeFunction props) \<Rightarrow>
               (case type_property props n of
                  Falsy \<Rightarrow> Inl (UnitNotFound n)
                | Throws \<Rightarrow> Inl TypeError
                | NonUnit \<Rightarrow> Inl (NotComparableValue (name (unit this)))
                | Found u \<Rightarrow>
                    if \<not> isComparable (unit this) u
                    then Inl (NotComparable (name (unit this)) (name u)) else Inr u)
           | _ \<Rightarrow> Inl TypeError))"

text \<open>
  Lines 76--88, \<open>this\<close> being the address of the receiver. The value handed to
  \<open>new Measure\<close> is a number, so a new instance is created whenever the constructor does
  not throw. Every address a program holds is allocated; the model answers \<open>TypeError\<close>
  for one that is not.
\<close>

definition Measure_as :: "nat \<Rightarrow> unit_arg \<Rightarrow> registry \<Rightarrow> store \<Rightarrow> (error + nat) \<times> store" where
  "Measure_as this unit0 Unit h =
     (if \<not> this < length h then (Inl TypeError, h)
      else
        (let m = h ! this
         in case resolve_unit m unit0 Unit of
              Inl e \<Rightarrow> (Inl e, h)
            | Inr u \<Rightarrow>
                Measure (Number (divide_num (mul (raw m) (scale (unit m))) (scale u)))
                  (Some u) (Number (precision m)) h))"

text \<open>
  Lines 135--149: the method the listener of line 134 mounts for an operation. The
  arguments of the call are passed on to \<open>Measure\<close> as they are when the first one is not
  an instance (\<open>Measure.apply(measure, arguments)\<close>), which initialises one more instance.
\<close>

definition operation_method ::
  "(jsnum \<Rightarrow> jsnum \<Rightarrow> jsnum) \<Rightarrow> nat \<Rightarrow> jsval \<Rightarrow> unit_obj option \<Rightarrow> jsval \<Rightarrow> store
     \<Rightarrow> (error + nat) \<times> store" where
  "operation_method operation this measure0 unit0 precision0 h =
     (if \<not> this < length h then (Inl TypeError, h)
      else
        (let m = h ! this;
             arg = (case measure0 of
                      MeasureRef b \<Rightarrow>
                        if b < length h then (Inr (h ! b), h) else (Inl TypeError, h)
                    | _ \<Rightarrow>
                        (case Measure_init measure0 unit0 precision0 of
                           Inl e \<Rightarrow> (Inl e, h)
                         | Inr m2 \<Rightarrow> (Inr m2, h @ [m2])))
         in case arg of
              (Inl e, h1) \<Rightarrow> (Inl e, h1)
            | (Inr m2, h1) \<Rightarrow>
                if \<not> isComparable (unit m) (unit m2)
                then (Inl (NotComparable (name (unit m)) (name (unit m2))), h1)
                else
                  Measure
                    (Number (divide_num
                       (operation (mul (raw m) (scale (unit m))) (mul (raw m2) (scale (unit m2))))
                       (scale (unit m))))
                    (Some (unit m))
                    (Number (Math_min (precision m) (precision m2)))
                    h1))"

section \<open>The operation registry\<close>

text \<open>
  Lines 18--40. \<open>ops\<close> is a plain object used as a dictionary from operation names to
  functions; the model keeps its own properties, and \<open>proto\<close>, the function that an
  assignment to \<open>ops['__proto__']\<close> has made its prototype, if there was one. \<open>listeners\<close>
  is the array of callbacks in subscription order.

  A listener acts on the state outside the registry, of type \<open>'w\<close>, and either returns or
  throws. It is called with the name and the function; what it can read of the registry
  is what \<open>getOperations\<close> returns, the contents of \<open>ops\<close>, which the model hands to it as a
  third argument. It does not call back into the registry.
\<close>

type_synonym ('f, 'w) listener =
  "string \<Rightarrow> 'f \<Rightarrow> (string \<rightharpoonup> 'f) \<Rightarrow> 'w \<Rightarrow> error option \<times> 'w"

record ('f, 'w) Operations =
  ops :: "string \<rightharpoonup> 'f"
  proto :: "'f option"
  listeners :: "('f, 'w) listener list"

text \<open>
  \<open>listeners.forEach(function (listener) { listener(name, func); })\<close>, \<open>stored\<close> being the
  contents of \<open>ops\<close> during the loop. A listener that throws ends the loop.
\<close>

fun forEach ::
  "('f, 'w) listener list \<Rightarrow> string \<Rightarrow> 'f \<Rightarrow> (string \<rightharpoonup> 'f) \<Rightarrow> 'w \<Rightarrow> error option \<times> 'w" where
  "forEach [] name0 func stored w = (None, w)"
| "forEach (l # ls) name0 func stored w =
     (case l name0 func stored w of
        (Some e, w1) \<Rightarrow> (Some e, w1)
      | (None, w1) \<Rightarrow> forEach ls name0 func stored w1)"

text \<open>
  The names that cannot be assigned on an object whose prototype is a function: \<open>length\<close>
  and \<open>name\<close> are read-only there, and the setters of \<open>caller\<close> and \<open>arguments\<close> throw.
\<close>

definition read_only_of_function :: "string list" where
  "read_only_of_function = [''length'', ''name'', ''caller'', ''arguments'']"

text \<open>
  Lines 22--30. The test of line 23 calls whatever \<open>ops.hasOwnProperty\<close> is: the method
  every object inherits, which tells whether \<open>name\<close> is a property of \<open>ops\<close> itself, unless
  an operation has been registered under the name \<open>hasOwnProperty\<close>; then that operation
  is called with the name alone, and \<open>called g name\<close> is what such a call does, throwing
  or returning a truthy or a falsy value. The assignment of line 26 makes a property of
  \<open>ops\<close> itself, except under the name \<open>__proto__\<close>, where it replaces the prototype of \<open>ops\<close>
  and adds no property.
\<close>

definition Operations_register ::
  "('f \<Rightarrow> string \<Rightarrow> error + bool) \<Rightarrow> string \<Rightarrow> 'f \<Rightarrow> ('f, 'w) Operations \<Rightarrow> 'w
     \<Rightarrow> error option \<times> ('f, 'w) Operations \<times> 'w" where
  "Operations_register called name0 func S w =
     (case (case ops S ''hasOwnProperty'' of
              Some g \<Rightarrow> called g name0
            | None \<Rightarrow> Inr (name0 \<noteq> ''__proto__'' \<and> ops S name0 \<noteq> None)) of
        Inl e \<Rightarrow> (Some e, S, w)
      | Inr True \<Rightarrow> (Some (OperationExists name0), S, w)
      | Inr False \<Rightarrow>
          if name0 = ''__proto__'' then
            (let S1 = S\<lparr>proto := Some func\<rparr>
             in case forEach (listeners S1) name0 func (ops S1) w of
                  (r, w1) \<Rightarrow> (r, S1, w1))
          else if proto S \<noteq> None \<and> name0 \<in> set read_only_of_function
          then (Some TypeError, S, w)
          else
            (let S1 = S\<lparr>ops := (ops S)(name0 \<mapsto> func)\<rparr>
             in case forEach (listeners S1) name0 func (ops S1) w of
                  (r, w1) \<Rightarrow> (r, S1, w1)))"

definition onRegister ::
  "('f, 'w) listener \<Rightarrow> ('f, 'w) Operations \<Rightarrow> 'w \<Rightarrow> ('f, 'w) Operations \<times> 'w" where
  "onRegister listener S w = (S\<lparr>listeners := listeners S @ [listener]\<rparr>, w)"

definition getOperations :: "('f, 'w) Operations \<Rightarrow> (string \<rightharpoonup> 'f)" where
  "getOperations S = ops S"

subsection \<open>The registry of the library\<close>

text \<open>
  Lines 131--150 and 169--173. The state the library's own listener acts on is the table
  of methods of \<open>Measure.prototype\<close> that come from operations; the method mounted for an
  operation is \<open>operation_method\<close> of that operation, so the table holds the operation.
  The assignment of line 135 adds no method under the name \<open>__proto__\<close>. (The table of the
  source also holds \<open>as\<close>, which an operation registered under that name would replace,
  and a method named like one of the four fields of an instance cannot be called on it;
  the model keeps \<open>as\<close> apart and the theorems speak of the method itself.)
\<close>

type_synonym operation = "jsnum \<Rightarrow> jsnum \<Rightarrow> jsnum"

type_synonym prototype = "string \<rightharpoonup> operation"

definition mount :: "(operation, prototype) listener" where
  "mount name0 operation stored table =
     (None, if name0 = ''__proto__'' then table else table(name0 \<mapsto> operation))"

definition basic_operations :: "(string \<times> operation) list" where
  "basic_operations =
     [(''add'', add), (''subtract'', subtract), (''multiply'', mul), (''divide'', divide_num)]"

fun register_operations ::
  "('f \<Rightarrow> string \<Rightarrow> error + bool) \<Rightarrow> (string \<times> 'f) list \<Rightarrow> ('f, 'w) Operations \<Rightarrow> 'w
     \<Rightarrow> error option \<times> ('f, 'w) Operations \<times> 'w" where
  "register_operations called [] S w = (None, S, w)"
| "register_operations called ((n, f) # rest) S w =
     (case Operations_register called n f S w of
        (Some e, S1, w1) \<Rightarrow> (Some e, S1, w1)
      | (None, S1, w1) \<Rightarrow> register_operations called rest S1 w1)"

text \<open>Lines 131, 134 and 170--173: the registry and the methods once the module is loaded.\<close>

definition initial_operations ::
  "(operation \<Rightarrow> string \<Rightarrow> error + bool)
     \<Rightarrow> error option \<times> (operation, prototype) Operations \<times> prototype" where
  "initial_operations called =
     (case onRegister mount \<lparr>ops = Map.empty, proto = None, listeners = []\<rparr> Map.empty of
        (S, table) \<Rightarrow> register_operations called basic_operations S table)"

section \<open>Notions of the specification\<close>

text \<open>
  The argument as the constructor reads it: a number as it is, anything else through
  \<open>Number\<close>.
\<close>

definition coerced :: "jsval \<Rightarrow> jsnum" where
  "coerced v = (case v of Number n \<Rightarrow> n | _ \<Rightarrow> ToNumber v)"

text \<open>Clamping to the inclusive range from 1 to 15, as the specification words it.\<close>

definition clamp_precision :: "jsnum \<Rightarrow> jsnum" where
  "clamp_precision q =
     (if num_le q (Fin 1) then Fin 1 else if num_le (Fin 15) q then Fin 15 else q)"

definition norm_precision :: "jsval \<Rightarrow> jsnum" where
  "norm_precision p = (let q = coerced p in if q = NaN then Fin 15 else clamp_precision q)"

definition is_integer :: "jsnum \<Rightarrow> bool" where
  "is_integer q = (case q of Fin x \<Rightarrow> of_int \<lfloor>x\<rfloor> = x | _ \<Rightarrow> False)"

definition in_precision_range :: "jsnum \<Rightarrow> bool" where
  "in_precision_range q = (case q of Fin x \<Rightarrow> 1 \<le> x \<and> x \<le> 15 | _ \<Rightarrow> False)"

text \<open>
  What every instance the constructor has initialised satisfies: its magnitude is not
  \<open>NaN\<close> and its precision lies between 1 and 15.
\<close>

definition measure_ok :: "measure_obj \<Rightarrow> bool" where
  "measure_ok m = (\<not> isNaN (raw m) \<and> in_precision_range (precision m))"

text \<open>The same of every instance in a store.\<close>

definition store_ok :: "store \<Rightarrow> bool" where
  "store_ok h = list_all measure_ok h"


text \<open>
  \<open>y\<close> is \<open>x\<close> rounded to \<open>p\<close> significant digits: with \<open>e\<close> the position of the leading
  digit of \<open>x\<close>, \<open>y\<close> is a whole number of units of the \<open>p\<close>-th digit and differs from \<open>x\<close> by
  at most half such a unit.
\<close>

definition is_rounding :: "rat \<Rightarrow> int \<Rightarrow> rat \<Rightarrow> bool" where
  "is_rounding x p y =
     (\<exists>e n. pow10 e \<le> \<bar>x\<bar> \<and> \<bar>x\<bar> < pow10 (e + 1) \<and>
        y = of_int n * pow10 (e - p + 1) \<and> \<bar>y - x\<bar> \<le> pow10 (e - p + 1) / 2)"

text \<open>
  \<open>v\<close> is the magnitude \<open>x\<close> rounded to the precision \<open>q\<close> (to its whole part, when \<open>q\<close> has a
  fraction): zero and the infinities stay as they are.
\<close>

definition rounded_to_precision :: "jsnum \<Rightarrow> jsnum \<Rightarrow> jsnum \<Rightarrow> bool" where
  "rounded_to_precision x q v =
     (case x of
        Fin r \<Rightarrow>
          (case q of
             Fin p \<Rightarrow>
               (case v of
                  Fin y \<Rightarrow> if r = 0 then y = 0 else is_rounding r \<lfloor>p\<rfloor> y
                | _ \<Rightarrow> False)
           | _ \<Rightarrow> False)
      | _ \<Rightarrow> v = x)"


text \<open>
  \<open>fn(m1.raw * m1.unit.scale, m2.raw * m2.unit.scale) / m1.unit.scale\<close>, the magnitude the
  specification gives for the result of an operation.
\<close>

definition operation_result :: "operation \<Rightarrow> measure_obj \<Rightarrow> measure_obj \<Rightarrow> jsnum" where
  "operation_result fn m1 m2 =
     divide_num (fn (mul (raw m1) (scale (unit m1))) (mul (raw m2) (scale (unit m2))))
       (scale (unit m1))"


definition unit_at :: "registry \<Rightarrow> string \<Rightarrow> string \<Rightarrow> unit_obj option" where
  "unit_at Unit t n =
     (case Unit t of
        Some (TypeFunction props) \<Rightarrow> props n
      | Some (HostObject defined) \<Rightarrow> defined n
      | None \<Rightarrow> None)"





definition kilometer :: unit_obj where
  "kilometer = \<lparr>name = ''kilometer'', type = ''distance'', abbr = ''km'', scale = Fin 1000\<rparr>"

section \<open>Properties of the arithmetic\<close>

lemma pow10_pos: "0 < pow10 e"
  by (simp add: pow10_def)

lemma pow10_values: "pow10 0 = 1" "pow10 1 = 10" "pow10 (- 1) = 1 / 10"
  by (simp_all add: pow10_def)

lemma pow10_add1: "pow10 (e + 1) = 10 * pow10 e"
proof -
  consider "0 \<le> e" | "e = - 1" | "e < - 1" by linarith
  then show ?thesis
  proof cases
    case 1
    then have "nat (e + 1) = Suc (nat e)" by simp
    with 1 show ?thesis by (simp add: pow10_def)
  next
    case 2
    then show ?thesis by (simp add: pow10_def)
  next
    case 3
    then have "nat (- e) = Suc (nat (- (e + 1)))" by simp
    with 3 show ?thesis by (simp add: pow10_def)
  qed
qed

lemma exp10_up_bounds:
  "1 \<le> x \<Longrightarrow> pow10 (exp10_up x) \<le> x \<and> x < pow10 (exp10_up x + 1)"
proof (induction x rule: exp10_up.induct)
  case (1 x)
  show ?case
  proof (cases "x < 10")
    case True
    then have "exp10_up x = 0" by (subst exp10_up.simps) simp
    with 1 True show ?thesis by (simp add: pow10_values)
  next
    case False
    then have "1 \<le> x / 10" by simp
    with 1 False have ih: "pow10 (exp10_up (x / 10)) \<le> x / 10"
      "x / 10 < pow10 (exp10_up (x / 10) + 1)"
      by blast+
    have e: "exp10_up x = exp10_up (x / 10) + 1"
      using False by (subst exp10_up.simps) simp
    have "pow10 (exp10_up (x / 10) + 1 + 1) = 10 * pow10 (exp10_up (x / 10) + 1)"
      by (rule pow10_add1)
    moreover have "pow10 (exp10_up (x / 10) + 1) = 10 * pow10 (exp10_up (x / 10))"
      by (rule pow10_add1)
    ultimately show ?thesis unfolding e using ih by linarith
  qed
qed

lemma exp10_down_bounds:
  "0 < x \<Longrightarrow> x < 1 \<Longrightarrow> pow10 (exp10_down x) \<le> x \<and> x < pow10 (exp10_down x + 1)"
proof (induction x rule: exp10_down.induct)
  case (1 x)
  have e: "exp10_down x = exp10_down (x * 10) - 1"
    using 1(2,3) by (subst exp10_down.simps) simp
  show ?case
  proof (cases "1 \<le> x * 10")
    case True
    then have "exp10_down (x * 10) = 0" by (subst exp10_down.simps) simp
    with e True 1(3) show ?thesis by (simp add: pow10_values)
  next
    case False
    with 1 have ih: "pow10 (exp10_down (x * 10)) \<le> x * 10"
      "x * 10 < pow10 (exp10_down (x * 10) + 1)"
      by simp_all
    have "pow10 (exp10_down (x * 10) - 1 + 1) = 10 * pow10 (exp10_down (x * 10) - 1)"
      by (rule pow10_add1)
    moreover have "pow10 (exp10_down (x * 10) + 1) = 10 * pow10 (exp10_down (x * 10))"
      by (rule pow10_add1)
    moreover have "pow10 (exp10_down (x * 10) - 1 + 1) = pow10 (exp10_down (x * 10))"
      by simp
    ultimately show ?thesis unfolding e using ih by linarith
  qed
qed

lemma decimal_exponent_bounds:
  "0 < x \<Longrightarrow> pow10 (decimal_exponent x) \<le> x \<and> x < pow10 (decimal_exponent x + 1)"
  using exp10_up_bounds[of x] exp10_down_bounds[of x]
  by (cases "1 \<le> x") (simp_all add: decimal_exponent_def)

lemma round_sig_rounding:
  assumes "0 < x"
  shows "is_rounding x p (round_sig x p)"
proof -
  define e where "e = decimal_exponent x"
  define s where "s = pow10 (e - p + 1)"
  define n where "n = \<lfloor>x / s + 1 / 2\<rfloor>"
  have s: "0 < s" by (simp add: s_def pow10_pos)
  have r: "round_sig x p = of_int n * s"
    by (simp add: round_sig_def e_def s_def n_def Let_def)
  have "of_int n \<le> x / s + 1 / 2" "x / s + 1 / 2 < of_int n + 1"
    unfolding n_def by linarith+
  then have "of_int n * s \<le> x + s / 2" "x + s / 2 < of_int n * s + s"
    using s by (simp_all add: field_simps)
  then have d: "\<bar>of_int n * s - x\<bar> \<le> s / 2" by linarith
  from decimal_exponent_bounds[OF assms] assms
  have "pow10 e \<le> \<bar>x\<bar>" "\<bar>x\<bar> < pow10 (e + 1)" by (simp_all add: e_def)
  with d show ?thesis unfolding is_rounding_def r s_def by blast
qed

lemma is_rounding_neg: "is_rounding x p y \<Longrightarrow> is_rounding (- x) p (- y)"
proof -
  assume "is_rounding x p y"
  then obtain e n where a: "pow10 e \<le> \<bar>x\<bar>" "\<bar>x\<bar> < pow10 (e + 1)"
    "y = of_int n * pow10 (e - p + 1)" "\<bar>y - x\<bar> \<le> pow10 (e - p + 1) / 2"
    unfolding is_rounding_def by blast
  have "- y = of_int (- n) * pow10 (e - p + 1)" using a(3) by simp
  moreover have "\<bar>- y - (- x)\<bar> = \<bar>y - x\<bar>" by simp
  ultimately show ?thesis unfolding is_rounding_def using a by (metis abs_minus_cancel)
qed

section \<open>Properties of the constructor\<close>

lemma coerced_eq: "(case v of Number n \<Rightarrow> n | _ \<Rightarrow> ToNumber v) = coerced v"
  by (simp add: coerced_def)

lemma clamp_eq:
  "q \<noteq> NaN \<Longrightarrow> Math_max (Math_min q MAX_PRECISION) MIN_PRECISION = clamp_precision q"
  by (cases q) (auto simp: Math_max_def Math_min_def MAX_PRECISION_def MIN_PRECISION_def
      clamp_precision_def isNaN_def)

lemma clamp_range: "q \<noteq> NaN \<Longrightarrow> in_precision_range (clamp_precision q)"
  by (cases q) (auto simp: clamp_precision_def in_precision_range_def)

lemma clamp_in_range: "in_precision_range q \<Longrightarrow> clamp_precision q = q"
  by (cases q) (auto simp: clamp_precision_def in_precision_range_def)

lemma norm_precision_range: "in_precision_range (norm_precision p)"
  using clamp_range[of "coerced p"]
  by (auto simp: norm_precision_def Let_def in_precision_range_def)


lemma toPrecision_in_range:
  assumes "in_precision_range q"
  shows "\<exists>v. Number_toPrecision x q = Inr v"
proof (cases x)
  case (Fin y)
  from assms obtain r where r: "q = Fin r" "1 \<le> r" "r \<le> 15"
    by (cases q) (auto simp: in_precision_range_def)
  then have "1 \<le> \<lfloor>r\<rfloor>" "\<lfloor>r\<rfloor> \<le> 15" by linarith+
  then have "\<not> ((of_int \<lfloor>r\<rfloor> :: rat) < 1 \<or> 100 < (of_int \<lfloor>r\<rfloor> :: rat))" by simp
  with r Fin show ?thesis by simp
qed simp_all

lemma toPrecision_rounded:
  assumes "in_precision_range q" and "Number_toPrecision x q = Inr v"
  shows "rounded_to_precision x q v"
proof (cases x)
  case (Fin y)
  from assms(1) obtain r where r: "q = Fin r" "1 \<le> r" "r \<le> 15"
    by (cases q) (auto simp: in_precision_range_def)
  then have "1 \<le> \<lfloor>r\<rfloor>" "\<lfloor>r\<rfloor> \<le> 15" by linarith+
  then have ok: "\<not> ((of_int \<lfloor>r\<rfloor> :: rat) < 1 \<or> 100 < (of_int \<lfloor>r\<rfloor> :: rat))" by simp
  have fl: "\<lfloor>(of_int \<lfloor>r\<rfloor> :: rat)\<rfloor> = \<lfloor>r\<rfloor>" by simp
  consider "y = 0" | "y < 0" | "0 < y" by linarith
  then show ?thesis
  proof cases
    case 1
    with assms(2) Fin r ok show ?thesis by (auto simp: rounded_to_precision_def)
  next
    case 2
    then have "is_rounding (- (- y)) \<lfloor>r\<rfloor> (- round_sig (- y) \<lfloor>r\<rfloor>)"
      by (intro is_rounding_neg round_sig_rounding) simp
    with 2 assms(2) Fin r ok fl show ?thesis by (auto simp: rounded_to_precision_def)
  next
    case 3
    then have "is_rounding y \<lfloor>r\<rfloor> (round_sig y \<lfloor>r\<rfloor>)" by (rule round_sig_rounding)
    with 3 assms(2) Fin r ok fl show ?thesis by (auto simp: rounded_to_precision_def)
  qed
qed (use assms(2) in \<open>auto simp: rounded_to_precision_def\<close>)

text \<open>The constructor's body, case by case.\<close>

lemma Measure_init_cases:
  "(coerced v = NaN \<and> Measure_init v u p = Inl (NumberRequired NaN)) \<or>
   (coerced v \<noteq> NaN \<and>
    (\<exists>x. Number_toPrecision (coerced v) (norm_precision p) = Inr x \<and>
       Measure_init v u p =
         Inr \<lparr>val = x, raw = coerced v,
              unit = (case u of None \<Rightarrow> nonUnited | Some u' \<Rightarrow> u'),
              precision = norm_precision p\<rparr>))"
proof (cases "coerced v = NaN")
  case True
  then show ?thesis by (simp add: Measure_init_def coerced_eq isNaN_def)
next
  case False
  have p3: "Math_max (Math_min (if isNaN (coerced p) then MAX_PRECISION else coerced p)
               MAX_PRECISION) MIN_PRECISION = norm_precision p"
  proof (cases "coerced p = NaN")
    case True
    then show ?thesis
      by (simp add: norm_precision_def isNaN_def Math_max_def Math_min_def
          MAX_PRECISION_def MIN_PRECISION_def)
  next
    case False
    then show ?thesis by (simp add: norm_precision_def isNaN_def clamp_eq)
  qed
  obtain x where x: "Number_toPrecision (coerced v) (norm_precision p) = Inr x"
    using toPrecision_in_range[OF norm_precision_range] by blast
  have "Measure_init v u p =
      Inr \<lparr>val = x, raw = coerced v,
           unit = (case u of None \<Rightarrow> nonUnited | Some u' \<Rightarrow> u'),
           precision = norm_precision p\<rparr>"
    unfolding Measure_init_def coerced_eq Let_def p3 using False x by (simp add: isNaN_def)
  with False x show ?thesis by blast
qed

lemma Measure_init_ok: "Measure_init v u p = Inr m \<Longrightarrow> measure_ok m"
  using Measure_init_cases[of v u p] norm_precision_range[of p]
  by (auto simp: measure_ok_def isNaN_def)

lemma Measure_init_precision:
  "coerced v \<noteq> NaN \<Longrightarrow> \<exists>m. Measure_init v u p = Inr m \<and> precision m = norm_precision p"
  using Measure_init_cases[of v u p] by auto

section \<open>Construction\<close>

text \<open>
  C8. For every value that is already a \<open>Measure\<close> instance, \<open>Measure(v, unit, precision)\<close>
  returns that very instance, whatever unit and precision come with it: the address
  returned is the address given, and the store of instances is unchanged, so nothing is
  wrapped again.
\<close>

theorem Measure_returns_given_instance: "Measure (MeasureRef a) u p h = (Inr a, h)"
  by (simp add: Measure_def)

text \<open>
  C6. A precision argument that is not a number is coerced to one; a coerced precision
  that is \<open>NaN\<close> gives precision 15, any other is clamped to the range from 1 to 15. In
  particular, with the value 1.23456789 and any unit, precision 0 gives 1, precision 99
  gives 15 and the string \<open>bogus\<close> gives 15. (Construction succeeds whenever the value
  does not coerce to \<open>NaN\<close>.)
\<close>

theorem precision_coerced_defaulted_clamped:
  "(coerced v \<noteq> NaN \<longrightarrow>
      (\<exists>m. Measure_init v u p = Inr m \<and>
         precision m = (if coerced p = NaN then Fin 15 else clamp_precision (coerced p)))) \<and>
   (\<exists>m. Measure_init (Number (Fin (123456789 / 100000000))) u (Number (Fin 0)) = Inr m \<and>
      precision m = Fin 1) \<and>
   (\<exists>m. Measure_init (Number (Fin (123456789 / 100000000))) u (Number (Fin 99)) = Inr m \<and>
      precision m = Fin 15) \<and>
   (\<exists>m. Measure_init (Number (Fin (123456789 / 100000000))) u (String ''bogus'') = Inr m \<and>
      precision m = Fin 15)"
proof -
  have v: "coerced (Number (Fin (123456789 / 100000000))) \<noteq> NaN"
    by (simp add: coerced_def)
  have "norm_precision (Number (Fin 0)) = Fin 1" by code_simp
  moreover have "norm_precision (Number (Fin 99)) = Fin 15" by code_simp
  moreover have "norm_precision (String ''bogus'') = Fin 15" by code_simp
  ultimately show ?thesis
    using Measure_init_precision[of v u p] Measure_init_precision[OF v, of u "Number (Fin 0)"]
      Measure_init_precision[OF v, of u "Number (Fin 99)"]
      Measure_init_precision[OF v, of u "String ''bogus''"]
    by (simp add: norm_precision_def Let_def)
qed

theorem precision_coerced_defaulted_clamped_witness:
  "coerced (String ''3.5'') \<noteq> NaN \<and>
   (\<exists>m. Measure_init (String ''3.5'') None (String '' 7 '') = Inr m \<and> precision m = Fin 7)"
proof -
  have a: "coerced (String ''3.5'') \<noteq> NaN" by code_simp
  have b: "coerced (String '' 7 '') = Fin 7" by code_simp
  from precision_coerced_defaulted_clamped[of "String ''3.5''" None "String '' 7 ''"] a b
  show ?thesis by (simp add: clamp_precision_def)
qed

text \<open>
  C7, as stated, says that every value that does not coerce to a finite number is
  rejected. The constructor tests \<open>isNaN\<close> only: \<open>Infinity\<close> is accepted and stored.
\<close>

theorem infinite_value_is_accepted:
  "Measure_init (Number PosInfinity) None Undefined
     = Inr \<lparr>val = PosInfinity, raw = PosInfinity, unit = nonUnited, precision = Fin 15\<rparr>"
  by code_simp

text \<open>
  C7, amended. Constructing a \<open>Measure\<close> from a value whose coercion is \<open>NaN\<close> fails with
  the invalid-value error; from any other value it succeeds, stores the coerced value as
  \<open>raw\<close>, and stores as \<open>val\<close> that value rounded to the precision (its whole part) in
  significant digits.
\<close>

theorem construction_rejects_NaN_only:
  "(coerced v = NaN \<longrightarrow> (\<exists>x. Measure_init v u p = Inl (NumberRequired x))) \<and>
   (coerced v \<noteq> NaN \<longrightarrow>
      (\<exists>m. Measure_init v u p = Inr m \<and> raw m = coerced v \<and>
         rounded_to_precision (raw m) (precision m) (val m)))"
proof (cases "coerced v = NaN")
  case True
  with Measure_init_cases[of v u p] show ?thesis by auto
next
  case False
  with Measure_init_cases[of v u p] obtain x where
    x: "Number_toPrecision (coerced v) (norm_precision p) = Inr x" and
    m: "Measure_init v u p = Inr \<lparr>val = x, raw = coerced v,
          unit = (case u of None \<Rightarrow> nonUnited | Some u' \<Rightarrow> u'), precision = norm_precision p\<rparr>"
    by auto
  from toPrecision_rounded[OF norm_precision_range x] m False show ?thesis by simp
qed

theorem construction_rejects_NaN_only_witness:
  "coerced (String ''bogus'') = NaN \<and>
   (\<exists>x. Measure_init (String ''bogus'') None Undefined = Inl (NumberRequired x)) \<and>
   coerced (Number (Fin 12345)) \<noteq> NaN \<and>
   (\<exists>m. Measure_init (Number (Fin 12345)) None (Number (Fin 2)) = Inr m \<and> raw m = Fin 12345 \<and>
      rounded_to_precision (raw m) (precision m) (val m))"
proof -
  have a: "coerced (String ''bogus'') = NaN" by code_simp
  have b: "coerced (Number (Fin 12345)) \<noteq> NaN" "coerced (Number (Fin 12345)) = Fin 12345"
    by (simp_all add: coerced_def)
  from construction_rejects_NaN_only[of "String ''bogus''" None Undefined]
    construction_rejects_NaN_only[of "Number (Fin 12345)" None "Number (Fin 2)"] a b
  show ?thesis by simp
qed

text \<open>
  The message of the invalid-value error is built from \<open>value\<close> after line 59 has replaced
  it by its coercion (the source marks this with a \<open>TODO\<close> at line 62), so what the error
  carries is \<open>NaN\<close>, not the caller's input.
\<close>

lemma invalid_value_error_carries_NaN:
  "Measure_init (String ''bogus'') None Undefined = Inl (NumberRequired NaN)"
  by code_simp

text \<open>
  C9, as stated, says that the stored precision is an integer for every precision
  argument. The constructor clamps and never rounds: a precision of 2.5 is stored as 2.5.
\<close>

theorem fractional_precision_is_stored:
  "Measure_init (Number (Fin 1)) None (Number (Fin (5 / 2)))
     = Inr \<lparr>val = Fin 1, raw = Fin 1, unit = nonUnited, precision = Fin (5 / 2)\<rparr> \<and>
   \<not> is_integer (Fin (5 / 2))"
  by code_simp

text \<open>
  C9, amended. For every successfully constructed \<open>Measure\<close> the stored precision is a
  number in the range from 1 to 15. It is an integer exactly when the coerced precision
  argument is \<open>NaN\<close>, is an integer, or lies at or beyond an end of the range; an argument
  inside the range, fractional or not, is stored as it is.
\<close>

theorem stored_precision_in_range:
  "Measure_init v u p = Inr m \<Longrightarrow>
     in_precision_range (precision m) \<and>
     (is_integer (precision m) \<longleftrightarrow>
        coerced p = NaN \<or> is_integer (coerced p) \<or>
        num_le (coerced p) (Fin 1) \<or> num_le (Fin 15) (coerced p)) \<and>
     (in_precision_range (coerced p) \<longrightarrow> precision m = coerced p)"
proof -
  assume a: "Measure_init v u p = Inr m"
  then have p: "precision m = norm_precision p"
    using Measure_init_cases[of v u p] by auto
  have "is_integer (norm_precision p) \<longleftrightarrow>
        coerced p = NaN \<or> is_integer (coerced p) \<or>
        num_le (coerced p) (Fin 1) \<or> num_le (Fin 15) (coerced p)"
    by (cases "coerced p")
      (auto simp: norm_precision_def clamp_precision_def is_integer_def Let_def)
  moreover have "norm_precision p = coerced p" if r: "in_precision_range (coerced p)"
  proof -
    from r have "coerced p \<noteq> NaN" by (auto simp: in_precision_range_def)
    with clamp_in_range[OF r] show ?thesis by (simp add: norm_precision_def Let_def)
  qed
  ultimately show ?thesis using p norm_precision_range[of p] by simp
qed

theorem stored_precision_in_range_witness:
  "Measure_init (Number (Fin 7)) None (Number (Fin (7 / 2)))
     = Inr \<lparr>val = Fin 7, raw = Fin 7, unit = nonUnited, precision = Fin (7 / 2)\<rparr> \<and>
   coerced (Number (Fin (7 / 2))) = Fin (7 / 2) \<and>
   in_precision_range (Fin (7 / 2)) \<and> \<not> is_integer (Fin (7 / 2))"
proof -
  have a: "Measure_init (Number (Fin 7)) None (Number (Fin (7 / 2)))
     = Inr \<lparr>val = Fin 7, raw = Fin 7, unit = nonUnited, precision = Fin (7 / 2)\<rparr>"
    by code_simp
  have b: "\<not> is_integer (Fin (7 / 2))" by code_simp
  have c: "coerced (Number (Fin (7 / 2))) = Fin (7 / 2)" by (simp add: coerced_def)
  have d: "in_precision_range (coerced (Number (Fin (7 / 2))))" unfolding c by code_simp
  from stored_precision_in_range[OF a] a b c d show ?thesis by simp
qed

section \<open>Properties of instances and conversion\<close>











text \<open>
  The empty store is \<open>store_ok\<close>, and the constructor and \<open>as\<close> keep a store so (as do the
  operation methods, below): the instances a program can hold satisfy \<open>measure_ok\<close>.
\<close>

lemma Measure_store_ok:
  assumes "store_ok h" and "Measure v u p h = (r, h')"
  shows "store_ok h'"
proof (cases "is_Measure v")
  case True
  with assms show ?thesis by (cases v) (auto simp: Measure_def)
next
  case False
  then have "Measure v u p h =
      (case Measure_init v u p of Inl e \<Rightarrow> (Inl e, h) | Inr m \<Rightarrow> (Inr (length h), h @ [m]))"
    by (cases v) (simp_all add: Measure_def)
  with assms show ?thesis
    by (auto simp: store_ok_def split: sum.splits dest: Measure_init_ok)
qed

lemma Measure_as_store_ok:
  assumes "store_ok h" and "Measure_as this t Unit h = (r, h')"
  shows "store_ok h'"
  using assms
  by (auto simp: Measure_as_def Let_def split: if_splits sum.splits dest: Measure_store_ok)


lemma initial_Unit_nonUnited:
  "unit_at initial_Unit ''_reserved'' ''nonUnited'' = Some nonUnited"
  by code_simp

text \<open>
  A name that is a property of every type constructor finds that property: the value is
  truthy and no unit, so line 80 lets it pass and line 84 finds it incomparable; reading
  \<open>caller\<close> or \<open>arguments\<close> throws.
\<close>

lemma as_property_name:
  assumes "this < length h"
    and "Unit (type (unit (h ! this))) = Some (TypeFunction props)" and "props n = None"
  shows "n \<in> set type_properties \<Longrightarrow>
      Measure_as this (Named n) Unit h = (Inl (NotComparableValue (name (unit (h ! this)))), h)"
    and "n \<notin> set type_properties \<Longrightarrow> n \<in> set restricted \<Longrightarrow>
      Measure_as this (Named n) Unit h = (Inl TypeError, h)"
  using assms by (simp_all add: Measure_as_def resolve_unit_def type_property_def)

lemma as_property_name_examples:
  "fst (Measure_as 0 (Named ''name'') initial_Unit
      [\<lparr>val = Fin 5, raw = Fin 5, unit = kilometer, precision = Fin 15\<rparr>])
     = Inl (NotComparableValue ''kilometer'')"
  "fst (Measure_as 0 (Named ''constructor'') initial_Unit
      [\<lparr>val = Fin 5, raw = Fin 5, unit = kilometer, precision = Fin 15\<rparr>])
     = Inl (NotComparableValue ''kilometer'')"
  "fst (Measure_as 0 (Named ''length'') initial_Unit
      [\<lparr>val = Fin 5, raw = Fin 5, unit = kilometer, precision = Fin 15\<rparr>])
     = Inl (UnitNotFound ''length'')"
  by code_simp+

section \<open>Conversion\<close>





section \<open>Operations on measures\<close>

text \<open>
  The library subscribes one listener, which mounts each operation as a method; after
  the four registrations of lines 170--173 the methods are the four operations.
\<close>

lemma initial_operations_mounted:
  "fst (initial_operations called) = None"
  "snd (snd (initial_operations called)) ''add'' = Some add"
  "snd (snd (initial_operations called)) ''subtract'' = Some subtract"
  "snd (snd (initial_operations called)) ''multiply'' = Some mul"
  "snd (snd (initial_operations called)) ''divide'' = Some divide_num"
  by (simp_all add: initial_operations_def onRegister_def basic_operations_def
      Operations_register_def mount_def read_only_of_function_def)

lemma registered_operation_is_mounted:
  assumes "listeners S = [mount]" and "ops S n = None"
    and "ops S ''hasOwnProperty'' = None" and "proto S = None" and "n \<noteq> ''__proto__''"
  shows "Operations_register called n fn S table =
     (None, S\<lparr>ops := (ops S)(n \<mapsto> fn)\<rparr>, table(n \<mapsto> fn))"
  using assms by (simp add: Operations_register_def mount_def)

lemma operation_method_instances:
  assumes "this < length h" and "b < length h"
  shows "operation_method fn this (MeasureRef b) u p h =
      (if \<not> isComparable (unit (h ! this)) (unit (h ! b))
       then (Inl (NotComparable (name (unit (h ! this))) (name (unit (h ! b)))), h)
       else Measure (Number (operation_result fn (h ! this) (h ! b))) (Some (unit (h ! this)))
              (Number (Math_min (precision (h ! this)) (precision (h ! b)))) h)"
  using assms by (simp add: operation_method_def operation_result_def Let_def)

lemma operation_method_args:
  assumes "this < length h" and "\<not> is_Measure arg"
  shows "operation_method fn this arg u p h =
      (case Measure_init arg u p of
         Inl e \<Rightarrow> (Inl e, h)
       | Inr m2 \<Rightarrow>
           if \<not> isComparable (unit (h ! this)) (unit m2)
           then (Inl (NotComparable (name (unit (h ! this))) (name (unit m2))), h @ [m2])
           else Measure (Number (operation_result fn (h ! this) m2)) (Some (unit (h ! this)))
                  (Number (Math_min (precision (h ! this)) (precision m2))) (h @ [m2]))"
  using assms
  by (cases arg)
    (simp_all add: operation_method_def operation_result_def Let_def split: sum.splits)

lemma operation_method_store_ok:
  assumes "store_ok h" and "operation_method fn this v u p h = (r, h')"
  shows "store_ok h'"
proof (cases "this < length h")
  case False
  with assms show ?thesis by (simp add: operation_method_def)
next
  case inb: True
  have step: "store_ok h'"
    if "store_ok h1" and
      "(if \<not> isComparable (unit (h ! this)) (unit m2)
        then (Inl (NotComparable (name (unit (h ! this))) (name (unit m2))), h1)
        else Measure (Number (operation_result fn (h ! this) m2)) (Some (unit (h ! this)))
               (Number (Math_min (precision (h ! this)) (precision m2))) h1) = (r, h')"
    for h1 m2
    using that by (auto split: if_splits dest: Measure_store_ok)
  show ?thesis
  proof (cases "is_Measure v")
    case True
    then obtain b where v: "v = MeasureRef b" by (cases v) auto
    show ?thesis
    proof (cases "b < length h")
      case True
      from assms(2) show ?thesis
        unfolding v operation_method_instances[OF inb True]
        by (rule step[OF assms(1)])
    next
      case False
      with assms inb v show ?thesis by (simp add: operation_method_def Let_def)
    qed
  next
    case bare: False
    show ?thesis
    proof (cases "Measure_init v u p")
      case (Inl e)
      with assms show ?thesis
        unfolding operation_method_args[OF inb bare] by simp
    next
      case (Inr m2)
      then have "store_ok (h @ [m2])"
        using assms(1) by (auto simp: store_ok_def dest: Measure_init_ok)
      from step[OF this, of m2] assms(2) Inr show ?thesis
        unfolding operation_method_args[OF inb bare] by simp
    qed
  qed
qed







section \<open>Registration of units\<close>














text \<open>
  What the registration does under the names the theorem below leaves out. Under the
  type \<open>distance\<close>, \<open>name\<close> finds the name of the type constructor, and line 116 throws.
  \<open>Unit.register\<close> and \<open>Unit.constructor\<close> are truthy, so line 102 defines no type; the
  object is defined on the function found there, where no type constructor is.
\<close>

lemma register_property_name_examples:
  "fst (Unit_register ''distance'' ''name'' '''' (Fin 1) initial_Unit)
     = Inl (UnitExists ''distance'' ''name'')"
  "fst (Unit_register ''register'' ''fathom'' ''ftm'' (Fin 2) initial_Unit) = Inr ()"
  "(case snd (Unit_register ''register'' ''fathom'' ''ftm'' (Fin 2) initial_Unit) ''register'' of
      Some (HostObject defined) \<Rightarrow> defined ''fathom''
    | _ \<Rightarrow> None)
     = Some \<lparr>name = ''fathom'', type = ''register'', abbr = ''ftm'', scale = Fin 2\<rparr>"
  "fst (Unit_register ''constructor'' ''fathom'' ''ftm'' (Fin 2) initial_Unit) = Inr ()"
  "fst (Unit_register ''name'' ''fathom'' ''ftm'' (Fin 2) initial_Unit) = Inl TypeError"
  "fst (Unit_register ''class'' ''fathom'' ''ftm'' (Fin 2) initial_Unit) = Inl SyntaxError"
  by code_simp+



section \<open>Registration of operations\<close>



text \<open>
  What the registration does under the two names the theorem below leaves out. An
  assignment to \<open>__proto__\<close> adds no property, so the test of line 23 never finds the name:
  it is accepted again and again. Once an operation is registered under
  \<open>hasOwnProperty\<close>, the test is a call of that operation: where it answers with a falsy
  value, a name that is registered is accepted; where it answers with a truthy value, a
  name that is not registered is refused.
\<close>

lemma register_proto_twice:
  assumes "ops S ''hasOwnProperty'' = None" and "listeners S = []"
  shows "Operations_register called ''__proto__'' f S w = (None, S\<lparr>proto := Some f\<rparr>, w)"
    and "Operations_register called ''__proto__'' g (S\<lparr>proto := Some f\<rparr>) w
      = (None, S\<lparr>proto := Some g\<rparr>, w)"
  using assms by (simp_all add: Operations_register_def)

lemma register_test_replaced:
  assumes "ops S ''hasOwnProperty'' = Some g" and "listeners S = []"
    and "n \<noteq> ''__proto__''" and "proto S = None"
  shows "called g n = Inr False \<Longrightarrow>
      Operations_register called n f S w = (None, S\<lparr>ops := (ops S)(n \<mapsto> f)\<rparr>, w)"
    and "called g n = Inr True \<Longrightarrow>
      Operations_register called n f S w = (Some (OperationExists n), S, w)"
  using assms by (simp_all add: Operations_register_def)



end
